theory Spec2Isabelle
  imports Main
begin

section \<open>JavaScript values and the built-in operations the front end relies on\<close>

text \<open>
  The values the handlers work on come out of \<open>JSON.parse\<close>, so they are JSON values;
  \<open>JUndefined\<close> is what reading an absent property gives.  Numbers are modelled as
  integers (the range in which \<open>Number::toString\<close> prints plain decimal digits), strings
  as lists of code units below 256.  An object is the list of its own properties.
\<close>

datatype json =
    JUndefined
  | JNull
  | JBool bool
  | JNum int
  | JStr string
  | JArr "json list"
  | JObj "(string \<times> json) list"

datatype js_error = TypeError

text \<open>What the body of a server-sent event is to \<open>JSON.parse\<close>: text that makes it throw
  a \<open>SyntaxError\<close> (with the engine's message), or text that decodes to a value.\<close>

datatype sse_data = Unparsable string | Parsed json

definition nullish :: "json \<Rightarrow> bool" where
  "nullish v = (v = JUndefined \<or> v = JNull)"

text \<open>\<open>ToBoolean\<close>: the falsy values are undefined, null, false, 0 and the empty string.\<close>

fun truthy :: "json \<Rightarrow> bool" where
  "truthy JUndefined = False"
| "truthy JNull = False"
| "truthy (JBool b) = b"
| "truthy (JNum n) = (n \<noteq> 0)"
| "truthy (JStr s) = (s \<noteq> [])"
| "truthy (JArr xs) = True"
| "truthy (JObj kvs) = True"

text \<open>\<open>a || b\<close> on values.\<close>

definition js_or :: "json \<Rightarrow> json \<Rightarrow> json" where
  "js_or a b = (if truthy a then a else b)"

text \<open>
  \<open>v.k\<close> for a value \<open>v\<close> that is neither null nor undefined, and for the property names
  this program reads (step, data, message, error, missing_skills, job_market_skills and the
  job columns): none of them is an index, \<open>length\<close> or a member of a built-in prototype,
  so only an object's own properties can answer.
\<close>

fun js_prop :: "json \<Rightarrow> string \<Rightarrow> json" where
  "js_prop (JObj kvs) k = (case map_of kvs k of Some v \<Rightarrow> v | None \<Rightarrow> JUndefined)"
| "js_prop v k = JUndefined"

text \<open>\<open>v.k\<close> in general: reading a property of null or undefined throws.\<close>

definition js_get :: "json \<Rightarrow> string \<Rightarrow> js_error + json" where
  "js_get v k = (if nullish v then Inl TypeError else Inr (js_prop v k))"

text \<open>\<open>v?.k\<close>.\<close>

definition js_opt_prop :: "json \<Rightarrow> string \<Rightarrow> json" where
  "js_opt_prop v k = (if nullish v then JUndefined else js_prop v k)"

fun isArray :: "json \<Rightarrow> bool" where
  "isArray (JArr xs) = True"
| "isArray v = False"


text \<open>The values compared by value: everything but arrays and objects.\<close>

fun primitive :: "json \<Rightarrow> bool" where
  "primitive (JArr xs) = False"
| "primitive (JObj kvs) = False"
| "primitive v = True"

text \<open>
  \<open>prev.includes(v)\<close> compares with SameValueZero: primitives by value, arrays and
  objects by identity.  \<open>v\<close> is always part of the event just decoded, a fresh object that
  no earlier element of \<open>prev\<close> can be.
\<close>

fun js_includes :: "json list \<Rightarrow> json \<Rightarrow> bool" where
  "js_includes prev (JArr xs) = False"
| "js_includes prev (JObj kvs) = False"
| "js_includes prev v = (v \<in> set prev)"

fun join :: "string \<Rightarrow> string list \<Rightarrow> string" where
  "join sep [] = []"
| "join sep [x] = x"
| "join sep (x # y # ys) = x @ sep @ join sep (y # ys)"

text \<open>Evaluating a list of computations from left to right: the first throw wins.\<close>

fun collect :: "(js_error + 'a) list \<Rightarrow> js_error + 'a list" where
  "collect [] = Inr []"
| "collect (Inl e # rs) = Inl e"
| "collect (Inr x # rs) = (case collect rs of Inl e \<Rightarrow> Inl e | Inr xs \<Rightarrow> Inr (x # xs))"


fun show_nat :: "nat \<Rightarrow> string" where
  "show_nat n =
     (if n < 10 then [''0123456789'' ! n]
      else show_nat (n div 10) @ [''0123456789'' ! (n mod 10)])"

declare show_nat.simps [simp del]

definition show_int :: "int \<Rightarrow> string" where
  "show_int i = (if i < 0 then CHR ''-'' # show_nat (nat (- i)) else show_nat (nat i))"

text \<open>
  \<open>ToString\<close>, as string concatenation, template literals and \<open>Array.prototype.join\<close>
  apply it.  An array is joined with commas, null and undefined elements giving the empty
  string.  A plain object gives \<open>[object Object]\<close>, unless it has an own property named
  \<open>toString\<close>: a decoded value is never callable, so the conversion throws.
\<close>

fun to_str :: "json \<Rightarrow> js_error + string" where
  "to_str JUndefined = Inr ''undefined''"
| "to_str JNull = Inr ''null''"
| "to_str (JBool b) = Inr (if b then ''true'' else ''false'')"
| "to_str (JNum n) = Inr (show_int n)"
| "to_str (JStr s) = Inr s"
| "to_str (JArr xs) =
     (case collect (map (\<lambda>x. if x = JUndefined \<or> x = JNull then Inr [] else to_str x) xs) of
        Inl e \<Rightarrow> Inl e
      | Inr ss \<Rightarrow> Inr (join '','' ss))"
| "to_str (JObj kvs) =
     (if ''toString'' \<in> fst ` set kvs then Inl TypeError else Inr ''[object Object]'')"

text \<open>\<open>xs.join(sep)\<close>.\<close>

definition array_join :: "string \<Rightarrow> json list \<Rightarrow> js_error + string" where
  "array_join sep xs =
     (case collect (map (\<lambda>x. if x = JUndefined \<or> x = JNull then Inr [] else to_str x) xs) of
        Inl e \<Rightarrow> Inl e
      | Inr ss \<Rightarrow> Inr (join sep ss))"


text \<open>The white space \<open>String.prototype.trim\<close> removes, among code units below 256:
  tab, line feed, vertical tab, form feed, carriage return, space, no-break space.\<close>

definition is_ws :: "char \<Rightarrow> bool" where
  "is_ws c = (c \<in> set [CHR 0x09, CHR 0x0A, CHR 0x0B, CHR 0x0C, CHR 0x0D, CHR 0x20, CHR 0xA0])"

definition trim :: "string \<Rightarrow> string" where
  "trim s = rev (dropWhile is_ws (rev (dropWhile is_ws s)))"

text \<open>\<open>xs.findIndex(P)\<close>: the position of the first element satisfying \<open>P\<close>, or -1.\<close>

fun findIndex_from :: "('a \<Rightarrow> bool) \<Rightarrow> 'a list \<Rightarrow> int \<Rightarrow> int" where
  "findIndex_from P [] i = - 1"
| "findIndex_from P (x # xs) i = (if P x then i else findIndex_from P xs (i + 1))"

definition findIndex :: "('a \<Rightarrow> bool) \<Rightarrow> 'a list \<Rightarrow> int" where
  "findIndex P xs = findIndex_from P xs 0"

text \<open>The outcome of \<open>fetch\<close>: a response with its status, or a rejected promise, whose
  reason is an error object with a name and a message.  \<open>res.ok\<close> is a status from 200 to
  299.\<close>

datatype fetch_result = Response nat | Rejected string string

definition res_ok :: "nat \<Rightarrow> bool" where
  "res_ok status = (200 \<le> status \<and> status \<le> 299)"

text \<open>\<open>Error.prototype.toString\<close>, which \<open>"Error: " + err\<close> applies to the error.\<close>

definition err_text :: "string \<Rightarrow> string \<Rightarrow> string" where
  "err_text name msg =
     (if name = [] then msg else if msg = [] then name else name @ '': '' @ msg)"

text \<open>An \<open>EventSource\<close>: the \<open>curriculum_text\<close> it was opened with, and whether it is
  still open (\<open>close()\<close> not yet called).\<close>

record event_source =
  param :: string
  is_open :: bool

text \<open>\<open>close()\<close> on the event source at position \<open>c\<close> of those constructed so far.\<close>

definition close_at :: "nat \<Rightarrow> event_source list \<Rightarrow> event_source list" where
  "close_at c cs = (if c < length cs then cs[c := (cs ! c)\<lparr>is_open := False\<rparr>] else cs)"

text \<open>
  What the browser does with an event source: it dispatches a message or an error to the
  handlers only while the source is open; after \<open>close()\<close> nothing is dispatched.
\<close>

datatype es_event = Message sse_data | StreamError

definition dispatching :: "nat \<Rightarrow> event_source list \<Rightarrow> bool" where
  "dispatching c cs = (c < length cs \<and> is_open (cs ! c))"


section \<open>App.jsx\<close>

subsection \<open>The step catalogue\<close>

definition STEPS :: "(string \<times> string) list" where
  "STEPS =
    [(''extracting_skills'', ''Analyzing your curriculum...''),
     (''skills_extracted'', ''Skills extracted''),
     (''identifying_roles'', ''Identifying relevant job roles...''),
     (''roles_identified'', ''Roles identified''),
     (''fetching_jobs'', ''Fetching relevant job listings...''),
     (''jobs_fetched'', ''Jobs fetched''),
     (''generating_summary'', ''Analyzing job requirements...''),
     (''summary_generated'', ''Job summary generated''),
     (''analyzing_gaps'', ''Analyzing skill gaps...''),
     (''gaps_analyzed'', ''Skill gaps analyzed''),
     (''generating_projects'', ''Generating project recommendations...''),
     (''major_project_generated'', ''Major project generated''),
     (''mini_projects_generated'', ''Mini projects generated''),
     (''complete'', ''Analysis complete!'')]"

subsection \<open>State\<close>

text \<open>An element of \<open>messages\<close>: \<open>{type, step, content}\<close>, an absent step being
  undefined.  The types are text, markdown, list, jobs (the table) and error.\<close>

record entry =
  mtype :: string
  step :: json
  content :: json

text \<open>
  The component's React state, and what it has done to the outside: the bodies of the POST
  requests sent and the event sources constructed, in order.  A handler refers to its event
  source by position in \<open>conns\<close>.
\<close>

record app_state =
  curriculum :: string
  submitted :: bool
  streaming :: bool
  messages :: "entry list"
  progress :: "json list"
  posted :: "string list"
  conns :: "event_source list"

definition init_state :: app_state where
  "init_state = \<lparr>curriculum = [], submitted = False, streaming = False, messages = [],
     progress = [], posted = [], conns = []\<rparr>"

text \<open>The textarea's \<open>onChange\<close>.\<close>

definition onChange :: "app_state \<Rightarrow> string \<Rightarrow> app_state" where
  "onChange st v = st\<lparr>curriculum := v\<rparr>"

subsection \<open>handleSubmit and handleView\<close>

text \<open>handleSubmit is asynchronous: it is modelled from the click to the settling of the
  request it sends, whose outcome is the second argument.\<close>

definition handleSubmit :: "app_state \<Rightarrow> fetch_result \<Rightarrow> app_state" where
  "handleSubmit st fr =
    (if trim (curriculum st) = [] then st
     else
       let st1 = st\<lparr>messages := [], progress := [], submitted := False, streaming := False,
                    posted := posted st @ [curriculum st]\<rparr>
       in case fr of
            Response status \<Rightarrow>
              if \<not> res_ok status
              then st1\<lparr>messages :=
                     [\<lparr>mtype = ''error'', step = JUndefined,
                       content = JStr (''POST failed: '' @ show_nat status)\<rparr>]\<rparr>
              else st1\<lparr>submitted := True\<rparr>
          | Rejected name msg \<Rightarrow>
              st1\<lparr>messages :=
                     [\<lparr>mtype = ''error'', step = JUndefined,
                       content = JStr (''Error: '' @ err_text name msg)\<rparr>]\<rparr>)"

definition handleView :: "app_state \<Rightarrow> app_state" where
  "handleView st =
     st\<lparr>messages := [], streaming := True, progress := [],
        conns := conns st @ [\<lparr>param = curriculum st, is_open = True\<rparr>]\<rparr>"

text \<open>\<open>eventSource.close()\<close> on the event source at position \<open>c\<close>.\<close>

definition close_es :: "nat \<Rightarrow> app_state \<Rightarrow> app_state" where
  "close_es c st = st\<lparr>conns := close_at c (conns st)\<rparr>"

subsection \<open>The onmessage handler\<close>

definition msgType :: "json \<Rightarrow> string" where
  "msgType parsed =
    (if js_prop parsed ''step'' = JStr ''summary_generated'' \<or>
        js_prop parsed ''step'' = JStr ''major_project_generated'' \<or>
        js_prop parsed ''step'' = JStr ''mini_projects_generated''
     then ''markdown''
     else if js_prop parsed ''step'' = JStr ''skills_extracted'' \<or>
             js_prop parsed ''step'' = JStr ''roles_identified'' \<or>
             js_prop parsed ''step'' = JStr ''gaps_analyzed''
     then ''list''
     else if js_prop parsed ''step'' = JStr ''jobs_fetched'' then ''jobs''
     else if truthy (js_prop parsed ''error'') then ''error''
     else ''text'')"

definition msgContent :: "json \<Rightarrow> json" where
  "msgContent parsed =
    (if msgType parsed = ''list''
     then (if isArray (js_prop parsed ''data'') then js_prop parsed ''data''
           else js_or (js_or (js_opt_prop (js_prop parsed ''data'') ''missing_skills'')
                             (js_opt_prop (js_prop parsed ''data'') ''job_market_skills''))
                      (JArr []))
     else js_or (js_or (js_prop parsed ''data'') (js_prop parsed ''message''))
                (js_prop parsed ''error''))"

definition mk_entry :: "json \<Rightarrow> entry" where
  "mk_entry parsed =
     \<lparr>mtype = msgType parsed, step = js_prop parsed ''step'', content = msgContent parsed\<rparr>"

text \<open>The test \<open>parsed.step === "complete" || parsed.error\<close> that ends the stream.\<close>

definition is_terminal :: "json \<Rightarrow> bool" where
  "is_terminal parsed =
     (js_prop parsed ''step'' = JStr ''complete'' \<or> truthy (js_prop parsed ''error''))"

text \<open>The body of the \<open>try\<close> block, for a decoded value that is not null.\<close>

definition onmessage_try :: "app_state \<Rightarrow> nat \<Rightarrow> json \<Rightarrow> app_state" where
  "onmessage_try st c parsed =
    (let st1 = st\<lparr>messages := messages st @ [mk_entry parsed]\<rparr>;
         st2 = (if truthy (js_prop parsed ''step'')
                then st1\<lparr>progress :=
                       (if js_includes (progress st1) (js_prop parsed ''step'') then progress st1
                        else progress st1 @ [js_prop parsed ''step''])\<rparr>
                else st1)
     in if is_terminal parsed
        then close_es c (st2\<lparr>streaming := False\<rparr>)
        else st2)"

text \<open>The \<open>catch\<close> block.\<close>

definition onmessage_catch :: "app_state \<Rightarrow> nat \<Rightarrow> app_state" where
  "onmessage_catch st c =
     close_es c
       (st\<lparr>messages := messages st @
              [\<lparr>mtype = ''error'', step = JUndefined,
                content = JStr ''Error parsing stream data.''\<rparr>],
           streaming := False\<rparr>)"

text \<open>
  \<open>JSON.parse\<close> throws on text that does not decode; \<open>parsed.step\<close>, the first thing the
  \<open>try\<close> block evaluates after it, throws when the text decoded to null.  Nothing else in
  the block can throw.
\<close>

definition onmessage :: "app_state \<Rightarrow> nat \<Rightarrow> sse_data \<Rightarrow> app_state" where
  "onmessage st c d =
     (case d of
        Unparsable m \<Rightarrow> onmessage_catch st c
      | Parsed parsed \<Rightarrow>
          if nullish parsed then onmessage_catch st c else onmessage_try st c parsed)"

definition onerror :: "app_state \<Rightarrow> nat \<Rightarrow> app_state" where
  "onerror st c =
     close_es c
       (st\<lparr>messages := messages st @
              [\<lparr>mtype = ''error'', step = JUndefined,
                content = JStr ''[Stream ended or error occurred]''\<rparr>],
           streaming := False\<rparr>)"

text \<open>An event arriving on the event source at position \<open>c\<close>, and a sequence of them.\<close>

definition deliver :: "nat \<Rightarrow> app_state \<Rightarrow> es_event \<Rightarrow> app_state" where
  "deliver c st ev =
     (if dispatching c (conns st)
      then (case ev of Message d \<Rightarrow> onmessage st c d | StreamError \<Rightarrow> onerror st c)
      else st)"

definition run :: "nat \<Rightarrow> app_state \<Rightarrow> es_event list \<Rightarrow> app_state" where
  "run c st evs = foldl (deliver c) st evs"

subsection \<open>getAnalysisText\<close>



definition job_columns :: "string list" where
  "job_columns =
     [''title'', ''company'', ''location'', ''source_platform'', ''posted_date'', ''salary'',
      ''job_url'']"

text \<open>One row: \<open>[job.title, ..., job.job_url].join(" | ")\<close>.\<close>

definition job_row :: "json \<Rightarrow> js_error + string" where
  "job_row job =
     (case collect (map (js_get job) job_columns) of
        Inl e \<Rightarrow> Inl e
      | Inr vs \<Rightarrow> array_join '' | '' vs)"

text \<open>
  What the export is expected to give for the table, stated apart from the program: a job
  record is an object each of whose columns is a string or absent; the text of a column is
  that string, or nothing when the column is absent; the text of a row is the texts of the
  record's columns joined by the column delimiter.  The program's own row is
  \<open>job_row\<close> above.
\<close>

fun string_or_absent :: "json \<Rightarrow> bool" where
  "string_or_absent JUndefined = True"
| "string_or_absent (JStr s) = True"
| "string_or_absent v = False"

fun job_record :: "json \<Rightarrow> bool" where
  "job_record (JObj kvs) = list_all (\<lambda>k. string_or_absent (js_prop (JObj kvs) k)) job_columns"
| "job_record v = False"

fun text_of :: "json \<Rightarrow> string" where
  "text_of (JStr s) = s"
| "text_of v = []"

definition row_text :: "json \<Rightarrow> string" where
  "row_text job = join '' | '' (map (\<lambda>k. text_of (js_prop job k)) job_columns)"





subsection \<open>The stepper's current position\<close>

definition currentStepIdx :: "json list \<Rightarrow> int" where
  "currentStepIdx prog =
     (if length prog \<noteq> 0
      then findIndex (\<lambda>s. JStr (fst s) = last prog) STEPS
      else 0)"


section \<open>StreamingChatInterface.jsx\<close>

text \<open>A chat message \<open>{sender, type, content, step}\<close>; its \<open>id\<close>, the clock reading used as
  a rendering key, is left out.\<close>

record chat_message =
  sender :: string
  type_c :: string
  content_c :: json
  step_c :: json

record chat_state =
  inputValue :: string
  messages_c :: "chat_message list"
  eventSourceInstance :: "nat option"
  posted_c :: "string list"
  conns_c :: "event_source list"

definition bot_error :: "string \<Rightarrow> chat_message" where
  "bot_error txt =
     \<lparr>sender = ''bot'', type_c = ''error'', content_c = JStr txt, step_c = JUndefined\<rparr>"

definition chat_handleSubmit :: "chat_state \<Rightarrow> fetch_result \<Rightarrow> chat_state" where
  "chat_handleSubmit st fr =
    (if trim (inputValue st) = [] then st
     else
       let currentInput = inputValue st;
           st1 = st\<lparr>messages_c := messages_c st @
                        [\<lparr>sender = ''user'', type_c = ''text'', content_c = JStr currentInput,
                          step_c = JUndefined\<rparr>],
                    inputValue := []\<rparr>;
           st2 = (case eventSourceInstance st of
                    Some i \<Rightarrow> st1\<lparr>conns_c := close_at i (conns_c st1)\<rparr>
                  | None \<Rightarrow> st1);
           st3 = st2\<lparr>posted_c := posted_c st2 @ [currentInput]\<rparr>
       in case fr of
            Response status \<Rightarrow>
              if \<not> res_ok status
              then st3\<lparr>messages_c := messages_c st3 @
                         [bot_error (''Error: '' @ ''HTTP error! status: '' @ show_nat status)]\<rparr>
              else st3\<lparr>conns_c := conns_c st3 @ [\<lparr>param = currentInput, is_open = True\<rparr>],
                       eventSourceInstance := Some (length (conns_c st3))\<rparr>
          | Rejected name msg \<Rightarrow>
              st3\<lparr>messages_c := messages_c st3 @ [bot_error (''Error: '' @ msg)]\<rparr>)"

text \<open>
  The message built in the \<open>try\<close> block from a decoded value that is not null.
  \<open>parsedData.data.missing_skills\<close> is read without \<open>?.\<close>, so it throws when a list step
  comes with no data.
\<close>

definition botMessage :: "json \<Rightarrow> js_error + chat_message" where
  "botMessage parsedData =
    (let stp = (if truthy (js_prop parsedData ''step'') then js_prop parsedData ''step''
                else JUndefined)
     in
     if js_prop parsedData ''step'' = JStr ''skills_extracted'' \<or>
        js_prop parsedData ''step'' = JStr ''roles_identified'' \<or>
        js_prop parsedData ''step'' = JStr ''gaps_analyzed''
     then (if isArray (js_prop parsedData ''data'')
           then Inr \<lparr>sender = ''bot'', type_c = ''list'',
                      content_c = js_prop parsedData ''data'', step_c = stp\<rparr>
           else if nullish (js_prop parsedData ''data'') then Inl TypeError
           else Inr \<lparr>sender = ''bot'', type_c = ''list'',
                      content_c =
                        js_or (js_or (js_prop (js_prop parsedData ''data'') ''missing_skills'')
                                     (js_prop (js_prop parsedData ''data'') ''job_market_skills''))
                              (JArr []),
                      step_c = stp\<rparr>)
     else if js_prop parsedData ''step'' = JStr ''summary_generated'' \<or>
             js_prop parsedData ''step'' = JStr ''major_project_generated'' \<or>
             js_prop parsedData ''step'' = JStr ''mini_projects_generated''
     then Inr \<lparr>sender = ''bot'', type_c = ''markdown'',
                content_c = js_prop parsedData ''data'', step_c = stp\<rparr>
     else if truthy (js_prop parsedData ''message'')
     then Inr \<lparr>sender = ''bot'', type_c = ''text'',
                content_c = js_prop parsedData ''message'', step_c = stp\<rparr>
     else Inr \<lparr>sender = ''bot'', type_c = ''text'', content_c = JStr [], step_c = stp\<rparr>)"

text \<open>The \<open>catch\<close> block, given the message of the error caught.\<close>

definition chat_catch :: "chat_state \<Rightarrow> string \<Rightarrow> chat_state" where
  "chat_catch st msg =
     st\<lparr>messages_c := messages_c st @ [bot_error (''Error processing message: '' @ msg)]\<rparr>"

text \<open>\<open>tmsg\<close> is the message the engine gives the \<open>TypeError\<close> it throws for a property
  read on null or undefined; one text stands for both places where that can happen, and
  only the wording of the entry the catch block appends depends on it.\<close>

definition chat_onmessage :: "string \<Rightarrow> chat_state \<Rightarrow> nat \<Rightarrow> sse_data \<Rightarrow> chat_state" where
  "chat_onmessage tmsg st c d =
    (case d of
       Unparsable m \<Rightarrow> chat_catch st m
     | Parsed parsedData \<Rightarrow>
         if nullish parsedData then chat_catch st tmsg
         else (case botMessage parsedData of
                 Inl e \<Rightarrow> chat_catch st tmsg
               | Inr b \<Rightarrow>
                   let st1 = st\<lparr>messages_c := messages_c st @ [b]\<rparr>
                   in if js_prop parsedData ''step'' = JStr ''complete''
                      then st1\<lparr>conns_c := close_at c (conns_c st1),
                               eventSourceInstance := None\<rparr>
                      else st1))"

definition chat_onerror :: "chat_state \<Rightarrow> nat \<Rightarrow> chat_state" where
  "chat_onerror st c =
     st\<lparr>messages_c := messages_c st @ [bot_error ''Connection error or stream ended.''],
        conns_c := close_at c (conns_c st),
        eventSourceInstance := None\<rparr>"

definition chat_deliver :: "string \<Rightarrow> nat \<Rightarrow> chat_state \<Rightarrow> es_event \<Rightarrow> chat_state" where
  "chat_deliver tmsg c st ev =
     (if dispatching c (conns_c st)
      then (case ev of Message d \<Rightarrow> chat_onmessage tmsg st c d | StreamError \<Rightarrow> chat_onerror st c)
      else st)"

definition chat_run :: "string \<Rightarrow> nat \<Rightarrow> chat_state \<Rightarrow> es_event list \<Rightarrow> chat_state" where
  "chat_run tmsg c st evs = foldl (chat_deliver tmsg c) st evs"


section \<open>CurriculumAnalysis.jsx\<close>

text \<open>An element of \<open>output\<close>: \<open>{type, data}\<close> or \<open>{type, text}\<close>, the absent field
  undefined.\<close>

record output_item =
  type_a :: string
  data_a :: json
  text_a :: json

record analysis_state =
  curriculum_a :: string
  output_a :: "output_item list"
  loading :: bool
  submitted_a :: bool
  posted_a :: "string list"

definition analysis_handleSubmit :: "analysis_state \<Rightarrow> fetch_result \<Rightarrow> analysis_state" where
  "analysis_handleSubmit st fr =
    (if trim (curriculum_a st) = [] then st
     else
       let st1 = st\<lparr>loading := True, output_a := [], submitted_a := False,
                    posted_a := posted_a st @ [curriculum_a st]\<rparr>
       in case fr of
            Response status \<Rightarrow>
              if \<not> res_ok status
              then st1\<lparr>output_a :=
                         [\<lparr>type_a = ''error'', data_a = JUndefined,
                           text_a = JStr (''POST failed: '' @ show_nat status)\<rparr>],
                       loading := False\<rparr>
              else st1\<lparr>submitted_a := True, loading := False\<rparr>
          | Rejected name msg \<Rightarrow>
              st1\<lparr>output_a :=
                     [\<lparr>type_a = ''error'', data_a = JUndefined,
                       text_a = JStr (''Error: '' @ err_text name msg)\<rparr>],
                  loading := False\<rparr>)"


section \<open>The static page\<close>

text \<open>The page keeps the submitted text in the variable \<open>lastCurriculum\<close>; the rest of its
  state is in the document: the textarea, the output pane, the view button.\<close>

record page_state =
  textarea :: string
  lastCurriculum :: string
  output_p :: string
  viewBtn_disabled :: bool
  alerts :: "string list"
  posted_p :: "string list"
  conns_p :: "event_source list"

definition page_init :: page_state where
  "page_init = \<lparr>textarea = [], lastCurriculum = [], output_p = [], viewBtn_disabled = True,
     alerts = [], posted_p = [], conns_p = []\<rparr>"

definition page_input :: "page_state \<Rightarrow> string \<Rightarrow> page_state" where
  "page_input st v = st\<lparr>textarea := v\<rparr>"

definition submitBtn_onclick :: "page_state \<Rightarrow> fetch_result \<Rightarrow> page_state" where
  "submitBtn_onclick st fr =
    (let curr = trim (textarea st) in
     if curr = [] then st\<lparr>alerts := alerts st @ [''Please enter your curriculum.'']\<rparr>
     else
       let st1 = st\<lparr>output_p := ''Submitting...'', viewBtn_disabled := True,
                    posted_p := posted_p st @ [curr]\<rparr>
       in case fr of
            Response status \<Rightarrow>
              if \<not> res_ok status
              then st1\<lparr>output_p := ''POST failed: '' @ show_nat status\<rparr>
              else st1\<lparr>lastCurriculum := curr,
                       output_p := ''Submitted! Now click 'View Analysis' to see the results.'',
                       viewBtn_disabled := False\<rparr>
          | Rejected name msg \<Rightarrow> st1\<lparr>output_p := ''Error: '' @ err_text name msg\<rparr>)"

definition viewBtn_onclick :: "page_state \<Rightarrow> page_state" where
  "viewBtn_onclick st =
    (if lastCurriculum st = []
     then st\<lparr>alerts := alerts st @ [''Please submit your curriculum first.'']\<rparr>
     else st\<lparr>output_p := [], viewBtn_disabled := True,
             conns_p := conns_p st @ [\<lparr>param = lastCurriculum st, is_open = True\<rparr>]\<rparr>)"


section \<open>Properties\<close>

subsection \<open>Auxiliary facts about the built-in operations\<close>

lemma trim_Nil_iff: "trim s = [] \<longleftrightarrow> (\<forall>c\<in>set s. is_ws c)"
proof
  assume "trim s = []"
  then have "dropWhile is_ws (rev (dropWhile is_ws s)) = []"
    by (simp add: trim_def)
  then have all: "\<forall>c\<in>set (dropWhile is_ws s). is_ws c"
    using dropWhile_eq_Nil_conv [of is_ws "rev (dropWhile is_ws s)"] by simp
  have "dropWhile is_ws s = []"
  proof (cases "dropWhile is_ws s")
    case Nil
    then show ?thesis .
  next
    case (Cons a as)
    then have "\<not> is_ws a" using hd_dropWhile [of is_ws s] by simp
    moreover have "is_ws a" using all Cons by simp
    ultimately show ?thesis by simp
  qed
  then show "\<forall>c\<in>set s. is_ws c" using dropWhile_eq_Nil_conv [of is_ws s] by blast
next
  assume "\<forall>c\<in>set s. is_ws c"
  then have "\<forall>c\<in>set (dropWhile is_ws s). is_ws c"
    by (meson set_dropWhileD)
  then show "trim s = []" by (simp add: trim_def)
qed

lemma findIndex_from_none:
  "(\<forall>x\<in>set xs. \<not> P x) \<Longrightarrow> findIndex_from P xs i = - 1"
  by (induction xs arbitrary: i) auto

lemma findIndex_from_some:
  "\<exists>x\<in>set xs. P x \<Longrightarrow>
     i \<le> findIndex_from P xs i \<and> findIndex_from P xs i < i + int (length xs) \<and>
     P (xs ! nat (findIndex_from P xs i - i))"
proof (induction xs arbitrary: i)
  case Nil
  then show ?case by simp
next
  case (Cons a xs)
  show ?case
  proof (cases "P a")
    case True
    then show ?thesis by simp
  next
    case False
    with Cons.prems have ex: "\<exists>x\<in>set xs. P x" by auto
    from Cons.IH [OF ex, of "i + 1"]
    have a: "i + 1 \<le> findIndex_from P xs (i + 1)"
      and b: "findIndex_from P xs (i + 1) < i + 1 + int (length xs)"
      and c: "P (xs ! nat (findIndex_from P xs (i + 1) - (i + 1)))" by auto
    have "nat (findIndex_from P xs (i + 1) - i) = Suc (nat (findIndex_from P xs (i + 1) - (i + 1)))"
      using a by linarith
    then show ?thesis using False a b c by simp
  qed
qed

subsection \<open>The stepper position\<close>

text \<open>
  C9.  The current step position is partial: with no step seen it is 0, the first step of
  the catalogue; when the most recently added step key is not in the catalogue it is -1;
  only when that key is in the catalogue is it a position of the catalogue, the one
  holding that key.
\<close>

theorem currentStepIdx_partial:
  "currentStepIdx [] = 0 \<and>
   (prog \<noteq> [] \<and> last prog \<notin> JStr ` fst ` set STEPS \<longrightarrow> currentStepIdx prog = - 1) \<and>
   (prog \<noteq> [] \<and> last prog \<in> JStr ` fst ` set STEPS \<longrightarrow>
      0 \<le> currentStepIdx prog \<and> currentStepIdx prog < int (length STEPS) \<and>
      JStr (fst (STEPS ! nat (currentStepIdx prog))) = last prog)"
proof (intro conjI impI)
  show "currentStepIdx [] = 0" by (simp add: currentStepIdx_def)
next
  assume h: "prog \<noteq> [] \<and> last prog \<notin> JStr ` fst ` set STEPS"
  then have "\<forall>s\<in>set STEPS. \<not> (JStr (fst s) = last prog)" by force
  then have "findIndex_from (\<lambda>s. JStr (fst s) = last prog) STEPS 0 = - 1"
    by (rule findIndex_from_none)
  with h show "currentStepIdx prog = - 1" by (simp add: currentStepIdx_def findIndex_def)
next
  assume h: "prog \<noteq> [] \<and> last prog \<in> JStr ` fst ` set STEPS"
  then have ex: "\<exists>s\<in>set STEPS. JStr (fst s) = last prog" by force
  have eq: "currentStepIdx prog = findIndex_from (\<lambda>s. JStr (fst s) = last prog) STEPS 0"
    using h by (simp add: currentStepIdx_def findIndex_def)
  from findIndex_from_some [of STEPS "\<lambda>s. JStr (fst s) = last prog" 0, OF ex]
  show "0 \<le> currentStepIdx prog" and "currentStepIdx prog < int (length STEPS)"
    and "JStr (fst (STEPS ! nat (currentStepIdx prog))) = last prog"
    by (simp_all add: eq)
qed

theorem currentStepIdx_partial_witness:
  "currentStepIdx [] = 0 \<and>
   currentStepIdx [JStr ''skills_extracted'', JStr ''warming_up''] = - 1 \<and>
   currentStepIdx [JStr ''skills_extracted'', JStr ''jobs_fetched''] = 5"
proof -
  have a: "[JStr ''skills_extracted'', JStr ''warming_up''] \<noteq> [] \<and>
           last [JStr ''skills_extracted'', JStr ''warming_up''] \<notin> JStr ` fst ` set STEPS"
    by (simp add: STEPS_def)
  have b: "currentStepIdx [JStr ''skills_extracted'', JStr ''jobs_fetched''] = 5"
    by (simp add: currentStepIdx_def findIndex_def STEPS_def)
  from a currentStepIdx_partial [of "[JStr ''skills_extracted'', JStr ''warming_up'']"] b
  show ?thesis by simp
qed

subsection \<open>Submitting blank input\<close>

text \<open>
  C10.  Submitting input that is empty or consists of white space only does nothing: in
  each of the three components the handler returns the state it was given, so no request
  is sent, no event source is opened and no part of the component's state changes.
\<close>

theorem submit_blank_noop:
  "((\<forall>c\<in>set (curriculum st). is_ws c) \<longrightarrow> handleSubmit st fr = st) \<and>
   ((\<forall>c\<in>set (inputValue cst). is_ws c) \<longrightarrow> chat_handleSubmit cst fr = cst) \<and>
   ((\<forall>c\<in>set (curriculum_a ast). is_ws c) \<longrightarrow> analysis_handleSubmit ast fr = ast)"
  by (simp add: handleSubmit_def chat_handleSubmit_def analysis_handleSubmit_def trim_Nil_iff)

theorem submit_blank_noop_witness:
  "handleSubmit (onChange init_state [CHR '' '', CHR 0x0A, CHR 0x09]) (Response 200)
     = onChange init_state [CHR '' '', CHR 0x0A, CHR 0x09] \<and>
   chat_handleSubmit
     \<lparr>inputValue = ''  '', messages_c = [], eventSourceInstance = None, posted_c = [],
      conns_c = []\<rparr> (Response 200)
     = \<lparr>inputValue = ''  '', messages_c = [], eventSourceInstance = None, posted_c = [],
        conns_c = []\<rparr> \<and>
   analysis_handleSubmit
     \<lparr>curriculum_a = [], output_a = [], loading = False, submitted_a = False, posted_a = []\<rparr>
     (Response 200)
     = \<lparr>curriculum_a = [], output_a = [], loading = False, submitted_a = False,
        posted_a = []\<rparr>"
  using submit_blank_noop
    [of "onChange init_state [CHR '' '', CHR 0x0A, CHR 0x09]" "Response 200"
        "\<lparr>inputValue = ''  '', messages_c = [], eventSourceInstance = None, posted_c = [],
          conns_c = []\<rparr>"
        "\<lparr>curriculum_a = [], output_a = [], loading = False, submitted_a = False,
          posted_a = []\<rparr>"]
  by (simp add: onChange_def init_state_def is_ws_def)

subsection \<open>Which text the stream is opened with\<close>

text \<open>
  C4.  The text is not frozen at submission in App.jsx: handleView reads the input field as
  it is when the results are requested.  Submitting "Python", then editing the field to
  "Java", then viewing opens the event source for "Java", although the job posted was
  "Python".
\<close>

theorem view_after_edit:
  "posted (handleView (onChange (handleSubmit (onChange init_state ''Python'') (Response 200)) ''Java''))
     = [''Python''] \<and>
   conns (handleView (onChange (handleSubmit (onChange init_state ''Python'') (Response 200)) ''Java''))
     = [\<lparr>param = ''Java'', is_open = True\<rparr>]"
  by (simp add: handleView_def onChange_def handleSubmit_def init_state_def trim_def is_ws_def res_ok_def)

text \<open>The static page keeps the submitted text in \<open>lastCurriculum\<close>: whatever is typed
  after a successful submission, the event source is opened with the text posted.\<close>

lemma page_view_uses_submitted_text:
  "trim v \<noteq> [] \<Longrightarrow> res_ok status \<Longrightarrow>
   conns_p (viewBtn_onclick (page_input (submitBtn_onclick (page_input st v) (Response status)) w))
     = conns_p st @ [\<lparr>param = trim v, is_open = True\<rparr>] \<and>
   posted_p (viewBtn_onclick (page_input (submitBtn_onclick (page_input st v) (Response status)) w))
     = posted_p st @ [trim v]"
  by (simp add: viewBtn_onclick_def page_input_def submitBtn_onclick_def Let_def)

text \<open>So does the chat component: the event source it opens on a successful submission
  carries the text it posted.\<close>

lemma chat_stream_uses_submitted_text:
  "trim (inputValue st) \<noteq> [] \<Longrightarrow> res_ok status \<Longrightarrow>
   last (conns_c (chat_handleSubmit st (Response status)))
     = \<lparr>param = inputValue st, is_open = True\<rparr> \<and>
   last (posted_c (chat_handleSubmit st (Response status))) = inputValue st"
  by (simp add: chat_handleSubmit_def Let_def split: option.splits)

subsection \<open>The timeline only grows\<close>

lemma messages_close_es [simp]: "messages (close_es c st) = messages st"
  by (simp add: close_es_def)

lemma progress_close_es [simp]: "progress (close_es c st) = progress st"
  by (simp add: close_es_def)

lemma conns_close_es [simp]: "conns (close_es c st) = close_at c (conns st)"
  by (simp add: close_es_def)

lemma streaming_close_es [simp]: "streaming (close_es c st) = streaming st"
  by (simp add: close_es_def)

lemma dispatching_close_at [simp]: "\<not> dispatching c (close_at c cs)"
  by (simp add: dispatching_def close_at_def)

lemma messages_onmessage_try:
  "messages (onmessage_try st c p) = messages st @ [mk_entry p]"
  by (simp add: onmessage_try_def Let_def)

lemma conns_onmessage_try:
  "conns (onmessage_try st c p) = (if is_terminal p then close_at c (conns st) else conns st)"
  by (simp add: onmessage_try_def Let_def)

lemma progress_onmessage_try:
  "progress (onmessage_try st c p) =
     (if truthy (js_prop p ''step'') \<and> \<not> js_includes (progress st) (js_prop p ''step'')
      then progress st @ [js_prop p ''step''] else progress st)"
  by (simp add: onmessage_try_def Let_def)

lemma messages_onmessage:
  "\<exists>e. messages (onmessage st c d) = messages st @ [e]"
  by (cases d) (simp_all add: onmessage_def onmessage_catch_def messages_onmessage_try)

lemma messages_deliver_open:
  "dispatching c (conns st) \<Longrightarrow> \<exists>e. messages (deliver c st ev) = messages st @ [e]"
  by (cases ev) (simp_all add: deliver_def messages_onmessage onerror_def)

lemma messages_deliver:
  "\<exists>es. messages (deliver c st ev) = messages st @ es"
proof (cases "dispatching c (conns st)")
  case True
  from messages_deliver_open [OF True, of ev] show ?thesis by blast
next
  case False
  then show ?thesis by (simp add: deliver_def)
qed

lemma run_Cons: "run c st (ev # evs) = run c (deliver c st ev) evs"
  by (simp add: run_def)

lemma run_Nil: "run c st [] = st"
  by (simp add: run_def)

lemma messages_run: "\<exists>es. messages (run c st evs) = messages st @ es"
proof (induction evs arbitrary: st)
  case Nil
  show ?case by (simp add: run_Nil)
next
  case (Cons ev evs)
  obtain es1 where a: "messages (deliver c st ev) = messages st @ es1"
    using messages_deliver by blast
  obtain es2 where b: "messages (run c (deliver c st ev) evs) = messages (deliver c st ev) @ es2"
    using Cons.IH by blast
  show ?case by (simp add: run_Cons a b)
qed

lemma deliver_valid:
  "dispatching c (conns st) \<Longrightarrow> \<not> nullish p \<Longrightarrow>
   deliver c st (Message (Parsed p)) = onmessage_try st c p"
  by (simp add: deliver_def onmessage_def)

lemma messages_run_valid:
  "dispatching c (conns st) \<Longrightarrow> \<forall>p\<in>set ps. \<not> nullish p \<Longrightarrow>
   \<forall>p\<in>set (butlast ps). \<not> is_terminal p \<Longrightarrow>
   messages (run c st (map (\<lambda>p. Message (Parsed p)) ps)) = messages st @ map mk_entry ps"
proof (induction ps arbitrary: st)
  case Nil
  show ?case by (simp add: run_Nil)
next
  case (Cons p ps)
  have step: "deliver c st (Message (Parsed p)) = onmessage_try st c p"
    using Cons.prems by (simp add: deliver_valid)
  show ?case
  proof (cases ps)
    case Nil
    then show ?thesis by (simp add: run_Cons run_Nil step messages_onmessage_try)
  next
    case (Cons q qs)
    with Cons.prems(3) have nt: "\<not> is_terminal p" by simp
    then have d: "dispatching c (conns (onmessage_try st c p))"
      using Cons.prems(1) by (simp add: conns_onmessage_try)
    have "messages (run c (onmessage_try st c p) (map (\<lambda>p. Message (Parsed p)) ps))
            = messages (onmessage_try st c p) @ map mk_entry ps"
      using Cons.IH [OF d] Cons.prems Cons by simp
    then show ?thesis by (simp add: run_Cons step messages_onmessage_try)
  qed
qed

lemma messages_chat_onmessage:
  "\<exists>e. messages_c (chat_onmessage tmsg st c d) = messages_c st @ [e]"
  by (cases d) (simp_all add: chat_onmessage_def chat_catch_def Let_def split: sum.splits)

lemma messages_chat_deliver:
  "\<exists>es. messages_c (chat_deliver tmsg c st ev) = messages_c st @ es"
proof (cases "dispatching c (conns_c st)")
  case True
  then show ?thesis
    using messages_chat_onmessage [of tmsg st c]
    by (cases ev) (auto simp add: chat_deliver_def chat_onerror_def)
next
  case False
  then show ?thesis by (simp add: chat_deliver_def)
qed

lemma messages_chat_run:
  "\<exists>es. messages_c (chat_run tmsg c st evs) = messages_c st @ es"
proof (induction evs arbitrary: st)
  case Nil
  show ?case by (simp add: chat_run_def)
next
  case (Cons ev evs)
  obtain es1 where a: "messages_c (chat_deliver tmsg c st ev) = messages_c st @ es1"
    using messages_chat_deliver by blast
  obtain es2 where b: "messages_c (chat_run tmsg c (chat_deliver tmsg c st ev) evs)
       = messages_c (chat_deliver tmsg c st ev) @ es2"
    using Cons.IH by blast
  have "chat_run tmsg c st (ev # evs) = chat_run tmsg c (chat_deliver tmsg c st ev) evs"
    by (simp add: chat_run_def)
  then show ?case by (simp add: a b)
qed

lemma chat_deliver_valid:
  "dispatching c (conns_c st) \<Longrightarrow> \<not> nullish p \<Longrightarrow> botMessage p = Inr b \<Longrightarrow>
   chat_deliver tmsg c st (Message (Parsed p)) =
     (if js_prop p ''step'' = JStr ''complete''
      then st\<lparr>messages_c := messages_c st @ [b], conns_c := close_at c (conns_c st),
              eventSourceInstance := None\<rparr>
      else st\<lparr>messages_c := messages_c st @ [b]\<rparr>)"
  by (simp add: chat_deliver_def chat_onmessage_def Let_def)

lemma messages_chat_deliver_valid:
  "dispatching c (conns_c st) \<Longrightarrow> \<not> nullish p \<Longrightarrow> botMessage p = Inr b \<Longrightarrow>
   messages_c (chat_deliver tmsg c st (Message (Parsed p))) = messages_c st @ [b]"
  by (simp add: chat_deliver_valid)

lemma messages_chat_deliver_open:
  "dispatching c (conns_c st) \<Longrightarrow>
   \<exists>e. messages_c (chat_deliver tmsg c st ev) = messages_c st @ [e]"
  using messages_chat_onmessage [of tmsg st c]
  by (cases ev) (auto simp add: chat_deliver_def chat_onerror_def)

lemma messages_chat_run_valid:
  "dispatching c (conns_c st) \<Longrightarrow> \<forall>p\<in>set ps. \<not> nullish p \<Longrightarrow>
   map botMessage ps = map Inr bs \<Longrightarrow>
   \<forall>p\<in>set (butlast ps). js_prop p ''step'' \<noteq> JStr ''complete'' \<Longrightarrow>
   messages_c (chat_run tmsg c st (map (\<lambda>p. Message (Parsed p)) ps)) = messages_c st @ bs"
proof (induction ps arbitrary: st bs)
  case Nil
  then show ?case by (simp add: chat_run_def)
next
  case (Cons p ps)
  from Cons.prems(3) obtain b bs' where bs: "bs = b # bs'" and b: "botMessage p = Inr b"
    and rest: "map botMessage ps = map Inr bs'"
    by (cases bs) auto
  have np: "\<not> nullish p" using Cons.prems(2) by simp
  let ?st' = "chat_deliver tmsg c st (Message (Parsed p))"
  have m: "messages_c ?st' = messages_c st @ [b]"
    using Cons.prems(1) np b by (rule messages_chat_deliver_valid)
  have unfold: "chat_run tmsg c st (Message (Parsed p) # map (\<lambda>p. Message (Parsed p)) ps)
      = chat_run tmsg c ?st' (map (\<lambda>p. Message (Parsed p)) ps)"
    by (simp add: chat_run_def)
  show ?case
  proof (cases ps)
    case Nil
    then have "bs' = []" using rest by simp
    then show ?thesis using Nil m bs by (simp add: chat_run_def)
  next
    case (Cons q qs)
    with Cons.prems(4) have nc: "js_prop p ''step'' \<noteq> JStr ''complete''" by simp
    have d: "dispatching c (conns_c ?st')"
      using Cons.prems(1) np b nc by (simp add: chat_deliver_valid)
    have "messages_c (chat_run tmsg c ?st' (map (\<lambda>p. Message (Parsed p)) ps))
        = messages_c ?st' @ bs'"
      using Cons.IH [OF d _ rest] Cons.prems(2) Cons.prems(4) Cons by simp
    then show ?thesis by (simp add: unfold m bs)
  qed
qed

text \<open>
  C6.  The timeline is append-only.  Whatever events arrive on an event source, the
  timeline afterwards is the timeline before followed by new entries: no earlier entry is
  changed, moved, merged or removed.  An event dispatched on an open source appends exactly
  one entry.  For decoded events of which none but the last ends the stream, the entries
  appended are the events' classifications in the order of receipt, one per event, so an
  entry's position is its receipt position.  The chat component's message list grows in the
  same way: any run leaves the old list as a prefix, an event dispatched on an open source
  appends exactly one message, a decoded event appends the message built from it, and a
  run of decoded events of which none but the last is the completion appends their
  messages in the order of receipt.
\<close>

theorem timeline_append_only:
  "(\<exists>es. messages (run c st evs) = messages st @ es) \<and>
   (\<forall>i<length (messages st). messages (run c st evs) ! i = messages st ! i) \<and>
   (dispatching c (conns st) \<longrightarrow> (\<exists>e. messages (deliver c st ev) = messages st @ [e])) \<and>
   (dispatching c (conns st) \<and> (\<forall>p\<in>set ps. \<not> nullish p) \<and>
    (\<forall>p\<in>set (butlast ps). \<not> is_terminal p) \<longrightarrow>
      messages (run c st (map (\<lambda>p. Message (Parsed p)) ps)) = messages st @ map mk_entry ps \<and>
      (\<forall>i<length ps.
         messages (run c st (map (\<lambda>p. Message (Parsed p)) ps)) ! (length (messages st) + i)
           = mk_entry (ps ! i))) \<and>
   (\<exists>es. messages_c (chat_run tmsg c cst evs) = messages_c cst @ es) \<and>
   (dispatching c (conns_c cst) \<longrightarrow>
      (\<exists>e. messages_c (chat_deliver tmsg c cst ev) = messages_c cst @ [e])) \<and>
   (dispatching c (conns_c cst) \<and> \<not> nullish p \<and> botMessage p = Inr b \<longrightarrow>
      messages_c (chat_deliver tmsg c cst (Message (Parsed p))) = messages_c cst @ [b]) \<and>
   (dispatching c (conns_c cst) \<and> (\<forall>p\<in>set ps. \<not> nullish p) \<and>
    map botMessage ps = map Inr bs \<and>
    (\<forall>p\<in>set (butlast ps). js_prop p ''step'' \<noteq> JStr ''complete'') \<longrightarrow>
      messages_c (chat_run tmsg c cst (map (\<lambda>p. Message (Parsed p)) ps))
        = messages_c cst @ bs)"
proof (intro conjI impI)
  show "\<exists>es. messages (run c st evs) = messages st @ es" by (rule messages_run)
next
  obtain es where "messages (run c st evs) = messages st @ es"
    using messages_run by blast
  then show "\<forall>i<length (messages st). messages (run c st evs) ! i = messages st ! i"
    by (simp add: nth_append)
next
  assume "dispatching c (conns st)"
  then show "\<exists>e. messages (deliver c st ev) = messages st @ [e]"
    by (rule messages_deliver_open)
next
  assume h: "dispatching c (conns st) \<and> (\<forall>p\<in>set ps. \<not> nullish p) \<and>
    (\<forall>p\<in>set (butlast ps). \<not> is_terminal p)"
  then show eq: "messages (run c st (map (\<lambda>p. Message (Parsed p)) ps))
      = messages st @ map mk_entry ps"
    by (simp add: messages_run_valid)
  show "\<forall>i<length ps.
         messages (run c st (map (\<lambda>p. Message (Parsed p)) ps)) ! (length (messages st) + i)
           = mk_entry (ps ! i)"
    by (simp add: eq)
next
  show "\<exists>es. messages_c (chat_run tmsg c cst evs) = messages_c cst @ es"
    by (rule messages_chat_run)
next
  assume "dispatching c (conns_c cst)"
  then show "\<exists>e. messages_c (chat_deliver tmsg c cst ev) = messages_c cst @ [e]"
    by (rule messages_chat_deliver_open)
next
  assume "dispatching c (conns_c cst) \<and> \<not> nullish p \<and> botMessage p = Inr b"
  then show "messages_c (chat_deliver tmsg c cst (Message (Parsed p))) = messages_c cst @ [b]"
    by (simp add: messages_chat_deliver_valid)
next
  assume "dispatching c (conns_c cst) \<and> (\<forall>p\<in>set ps. \<not> nullish p) \<and>
    map botMessage ps = map Inr bs \<and>
    (\<forall>p\<in>set (butlast ps). js_prop p ''step'' \<noteq> JStr ''complete'')"
  then show "messages_c (chat_run tmsg c cst (map (\<lambda>p. Message (Parsed p)) ps))
        = messages_c cst @ bs"
    by (simp add: messages_chat_run_valid)
qed

theorem timeline_append_only_witness:
  "messages
     (run 0 (handleView init_state)
        (map (\<lambda>p. Message (Parsed p))
           [JObj [(''step'', JStr ''fetching_jobs''), (''message'', JStr ''Fetching'')],
            JObj [(''step'', JStr ''fetching_jobs''), (''message'', JStr ''Fetching'')],
            JObj [(''step'', JStr ''complete'')]]))
   = [\<lparr>mtype = ''text'', step = JStr ''fetching_jobs'', content = JStr ''Fetching''\<rparr>,
      \<lparr>mtype = ''text'', step = JStr ''fetching_jobs'', content = JStr ''Fetching''\<rparr>,
      \<lparr>mtype = ''text'', step = JStr ''complete'', content = JUndefined\<rparr>] \<and>
   messages_c
     (chat_run ''Cannot read properties of null'' 0
        \<lparr>inputValue = [], messages_c = [], eventSourceInstance = Some 0, posted_c = [''Python''],
         conns_c = [\<lparr>param = ''Python'', is_open = True\<rparr>]\<rparr>
        (map (\<lambda>p. Message (Parsed p))
           [JObj [(''step'', JStr ''fetching_jobs''), (''message'', JStr ''Fetching'')],
            JObj [(''step'', JStr ''fetching_jobs''), (''message'', JStr ''Fetching'')],
            JObj [(''step'', JStr ''complete'')]]))
   = [\<lparr>sender = ''bot'', type_c = ''text'', content_c = JStr ''Fetching'',
        step_c = JStr ''fetching_jobs''\<rparr>,
      \<lparr>sender = ''bot'', type_c = ''text'', content_c = JStr ''Fetching'',
        step_c = JStr ''fetching_jobs''\<rparr>,
      \<lparr>sender = ''bot'', type_c = ''text'', content_c = JStr [], step_c = JStr ''complete''\<rparr>]"
  using timeline_append_only
    [where c = 0 and st = "handleView init_state" and evs = "[]" and ev = "StreamError"
       and ps = "[JObj [(''step'', JStr ''fetching_jobs''), (''message'', JStr ''Fetching'')],
                  JObj [(''step'', JStr ''fetching_jobs''), (''message'', JStr ''Fetching'')],
                  JObj [(''step'', JStr ''complete'')]]"
       and tmsg = "''Cannot read properties of null''"
       and cst = "\<lparr>inputValue = [], messages_c = [], eventSourceInstance = Some 0,
                    posted_c = [''Python''],
                    conns_c = [\<lparr>param = ''Python'', is_open = True\<rparr>]\<rparr>"
       and p = "JObj [(''step'', JStr ''complete'')]"
       and b = "\<lparr>sender = ''bot'', type_c = ''text'', content_c = JStr [],
                  step_c = JStr ''complete''\<rparr>"
       and bs = "[\<lparr>sender = ''bot'', type_c = ''text'', content_c = JStr ''Fetching'',
                    step_c = JStr ''fetching_jobs''\<rparr>,
                  \<lparr>sender = ''bot'', type_c = ''text'', content_c = JStr ''Fetching'',
                    step_c = JStr ''fetching_jobs''\<rparr>,
                  \<lparr>sender = ''bot'', type_c = ''text'', content_c = JStr [],
                    step_c = JStr ''complete''\<rparr>]"]
  by (simp add: handleView_def init_state_def dispatching_def nullish_def is_terminal_def
      mk_entry_def msgType_def msgContent_def js_or_def botMessage_def)

subsection \<open>The steps seen\<close>

lemma js_includes_primitive: "primitive v \<Longrightarrow> js_includes prev v = (v \<in> set prev)"
  by (cases v) simp_all

lemma progress_onmessage:
  "progress (onmessage st c d) = progress st \<or>
   (\<exists>v. \<not> js_includes (progress st) v \<and> progress (onmessage st c d) = progress st @ [v])"
  by (cases d) (auto simp add: onmessage_def onmessage_catch_def progress_onmessage_try)

lemma progress_deliver:
  "progress (deliver c st ev) = progress st \<or>
   (\<exists>v. \<not> js_includes (progress st) v \<and> progress (deliver c st ev) = progress st @ [v])"
proof (cases "dispatching c (conns st)")
  case True
  then show ?thesis
    using progress_onmessage [of st c]
    by (cases ev) (auto simp add: deliver_def onerror_def)
next
  case False
  then show ?thesis by (simp add: deliver_def)
qed

lemma progress_run_prefix: "\<exists>ks. progress (run c st evs) = progress st @ ks"
proof (induction evs arbitrary: st)
  case Nil
  show ?case by (simp add: run_Nil)
next
  case (Cons ev evs)
  obtain ks1 where a: "progress (deliver c st ev) = progress st @ ks1"
    using progress_deliver [of c st ev] by auto
  obtain ks2 where b: "progress (run c (deliver c st ev) evs) = progress (deliver c st ev) @ ks2"
    using Cons.IH by blast
  show ?case by (simp add: run_Cons a b)
qed

lemma distinct_add_key:
  "distinct (filter primitive prog) \<Longrightarrow> \<not> js_includes prog v \<Longrightarrow>
   distinct (filter primitive (prog @ [v]))"
  by (cases "primitive v") (simp_all add: js_includes_primitive)

lemma distinct_progress_deliver:
  "distinct (filter primitive (progress st)) \<Longrightarrow>
   distinct (filter primitive (progress (deliver c st ev)))"
  using progress_deliver [of c st ev] distinct_add_key [of "progress st"] by auto

lemma distinct_progress_run:
  "distinct (filter primitive (progress st)) \<Longrightarrow>
   distinct (filter primitive (progress (run c st evs)))"
proof (induction evs arbitrary: st)
  case Nil
  then show ?case by (simp add: run_Nil)
next
  case (Cons ev evs)
  from Cons.IH [OF distinct_progress_deliver [OF Cons.prems]]
  show ?case by (simp add: run_Cons)
qed

text \<open>
  C7.  The steps seen form an insertion-ordered set.  Events only ever extend the sequence
  at its end, so a recorded key keeps its position; keys (compared by value) stay pairwise
  distinct, and are so in every sequence built after the results were requested; an event
  whose step key is already recorded leaves the sequence as it is, and one whose key is new
  adds it at the end.
\<close>

theorem seenSteps_insertion_ordered:
  "(\<exists>ks. progress (run c st evs) = progress st @ ks) \<and>
   (distinct (filter primitive (progress st)) \<longrightarrow>
      distinct (filter primitive (progress (run c st evs)))) \<and>
   distinct (filter primitive (progress (run c (handleView st) evs))) \<and>
   (dispatching c (conns st) \<and> \<not> nullish p \<and> js_prop p ''step'' = JStr k \<and>
    JStr k \<in> set (progress st) \<longrightarrow>
      progress (deliver c st (Message (Parsed p))) = progress st) \<and>
   (dispatching c (conns st) \<and> \<not> nullish p \<and> js_prop p ''step'' = JStr k \<and> k \<noteq> [] \<and>
    JStr k \<notin> set (progress st) \<longrightarrow>
      progress (deliver c st (Message (Parsed p))) = progress st @ [JStr k])"
proof (intro conjI impI)
  show "\<exists>ks. progress (run c st evs) = progress st @ ks" by (rule progress_run_prefix)
next
  assume "distinct (filter primitive (progress st))"
  then show "distinct (filter primitive (progress (run c st evs)))"
    by (rule distinct_progress_run)
next
  have "distinct (filter primitive (progress (handleView st)))"
    by (simp add: handleView_def)
  then show "distinct (filter primitive (progress (run c (handleView st) evs)))"
    by (rule distinct_progress_run)
next
  assume "dispatching c (conns st) \<and> \<not> nullish p \<and> js_prop p ''step'' = JStr k \<and>
    JStr k \<in> set (progress st)"
  then show "progress (deliver c st (Message (Parsed p))) = progress st"
    by (simp add: deliver_valid progress_onmessage_try)
next
  assume "dispatching c (conns st) \<and> \<not> nullish p \<and> js_prop p ''step'' = JStr k \<and> k \<noteq> [] \<and>
    JStr k \<notin> set (progress st)"
  then show "progress (deliver c st (Message (Parsed p))) = progress st @ [JStr k]"
    by (simp add: deliver_valid progress_onmessage_try)
qed

theorem seenSteps_insertion_ordered_witness:
  "progress
     (deliver 0
        \<lparr>curriculum = ''Python'', submitted = True, streaming = True, messages = [],
         progress = [JStr ''extracting_skills'', JStr ''skills_extracted''],
         posted = [''Python''], conns = [\<lparr>param = ''Python'', is_open = True\<rparr>]\<rparr>
        (Message (Parsed (JObj [(''step'', JStr ''extracting_skills'')]))))
   = [JStr ''extracting_skills'', JStr ''skills_extracted''] \<and>
   progress
     (deliver 0
        \<lparr>curriculum = ''Python'', submitted = True, streaming = True, messages = [],
         progress = [JStr ''extracting_skills'', JStr ''skills_extracted''],
         posted = [''Python''], conns = [\<lparr>param = ''Python'', is_open = True\<rparr>]\<rparr>
        (Message (Parsed (JObj [(''step'', JStr ''roles_identified''), (''data'', JArr [])]))))
   = [JStr ''extracting_skills'', JStr ''skills_extracted'', JStr ''roles_identified''] \<and>
   distinct
     (filter primitive
        (progress
           (run 0
              \<lparr>curriculum = ''Python'', submitted = True, streaming = True, messages = [],
               progress = [JStr ''extracting_skills'', JStr ''skills_extracted''],
               posted = [''Python''], conns = [\<lparr>param = ''Python'', is_open = True\<rparr>]\<rparr>
              [Message (Parsed (JObj [(''step'', JStr ''extracting_skills'')])),
               Message (Parsed (JObj [(''step'', JStr ''roles_identified''),
                                      (''data'', JArr [])]))])))"
proof -
  let ?st = "\<lparr>curriculum = ''Python'', submitted = True, streaming = True, messages = [],
         progress = [JStr ''extracting_skills'', JStr ''skills_extracted''],
         posted = [''Python''], conns = [\<lparr>param = ''Python'', is_open = True\<rparr>]\<rparr>"
  have a: "progress (deliver 0 ?st (Message (Parsed (JObj [(''step'', JStr ''extracting_skills'')]))))
      = [JStr ''extracting_skills'', JStr ''skills_extracted'']"
    using seenSteps_insertion_ordered
      [of 0 ?st "[]" "JObj [(''step'', JStr ''extracting_skills'')]" "''extracting_skills''"]
    by (simp add: dispatching_def nullish_def)
  have b: "progress (deliver 0 ?st
        (Message (Parsed (JObj [(''step'', JStr ''roles_identified''), (''data'', JArr [])]))))
      = [JStr ''extracting_skills'', JStr ''skills_extracted'', JStr ''roles_identified'']"
    using seenSteps_insertion_ordered
      [of 0 ?st "[]" "JObj [(''step'', JStr ''roles_identified''), (''data'', JArr [])]"
          "''roles_identified''"]
    by (simp add: dispatching_def nullish_def)
  have c: "distinct (filter primitive (progress (run 0 ?st
        [Message (Parsed (JObj [(''step'', JStr ''extracting_skills'')])),
         Message (Parsed (JObj [(''step'', JStr ''roles_identified''), (''data'', JArr [])]))])))"
    using seenSteps_insertion_ordered
      [of 0 ?st "[Message (Parsed (JObj [(''step'', JStr ''extracting_skills'')])),
         Message (Parsed (JObj [(''step'', JStr ''roles_identified''), (''data'', JArr [])]))]"
          "JObj [(''step'', JStr ''extracting_skills'')]" "''extracting_skills''"]
    by simp
  show ?thesis using a b c by blast
qed

subsection \<open>Classification of a decoded event\<close>




subsection \<open>Events that do not decode\<close>

lemma run_closed: "\<not> dispatching c (conns st) \<Longrightarrow> run c st evs = st"
  by (induction evs) (simp_all add: run_def deliver_def)

lemma deliver_unparsable:
  "dispatching c (conns st) \<Longrightarrow>
   deliver c st (Message (Unparsable m)) = onmessage_catch st c"
  by (simp add: deliver_def onmessage_def)

lemma deliver_null:
  "dispatching c (conns st) \<Longrightarrow> nullish p \<Longrightarrow>
   deliver c st (Message (Parsed p)) = onmessage_catch st c"
  by (simp add: deliver_def onmessage_def)

lemma onmessage_catch_closed: "\<not> dispatching c (conns (onmessage_catch st c))"
  by (simp add: onmessage_catch_def)

text \<open>
  C2, as stated, fails in App.jsx: the handler's catch block closes the event source and
  leaves streaming, so after an event that does not decode the stream does not continue;
  a well-formed event arriving next is not applied.
\<close>

theorem malformed_event_counterexample:
  "streaming
     (deliver 0
        \<lparr>curriculum = ''Python'', submitted = True, streaming = True, messages = [],
         progress = [], posted = [''Python''],
         conns = [\<lparr>param = ''Python'', is_open = True\<rparr>]\<rparr>
        (Message (Unparsable ''Unexpected end of JSON input''))) = False \<and>
   conns
     (deliver 0
        \<lparr>curriculum = ''Python'', submitted = True, streaming = True, messages = [],
         progress = [], posted = [''Python''],
         conns = [\<lparr>param = ''Python'', is_open = True\<rparr>]\<rparr>
        (Message (Unparsable ''Unexpected end of JSON input'')))
     = [\<lparr>param = ''Python'', is_open = False\<rparr>] \<and>
   run 0
     \<lparr>curriculum = ''Python'', submitted = True, streaming = True, messages = [],
      progress = [], posted = [''Python''],
      conns = [\<lparr>param = ''Python'', is_open = True\<rparr>]\<rparr>
     [Message (Unparsable ''Unexpected end of JSON input''),
      Message (Parsed (JObj [(''step'', JStr ''skills_extracted''),
                             (''data'', JArr [JStr ''Python''])]))]
     = \<lparr>curriculum = ''Python'', submitted = True, streaming = False,
        messages = [\<lparr>mtype = ''error'', step = JUndefined,
                     content = JStr ''Error parsing stream data.''\<rparr>],
        progress = [], posted = [''Python''],
        conns = [\<lparr>param = ''Python'', is_open = False\<rparr>]\<rparr>"
  by (simp add: run_def deliver_def dispatching_def onmessage_def onmessage_catch_def
      close_es_def close_at_def)

text \<open>
  C2, amended.  In App.jsx an event whose body does not decode (or decodes to null)
  appends one error entry with the fixed message "Error parsing stream data." and no
  step, leaves the steps seen as they are, and ends the stream: streaming is cleared, the
  event source is closed and no later event on it changes the state.  In
  StreamingChatInterface.jsx such an event appends one error entry whose text is
  "Error processing message: " followed by the parser's own message, and the event source
  stays as it was.  In both the handler returns a state: nothing is thrown past it.
\<close>

theorem malformed_event_recovered:
  "(dispatching c (conns st) \<longrightarrow>
      messages (deliver c st (Message (Unparsable m)))
        = messages st @ [\<lparr>mtype = ''error'', step = JUndefined,
                          content = JStr ''Error parsing stream data.''\<rparr>] \<and>
      progress (deliver c st (Message (Unparsable m))) = progress st \<and>
      \<not> streaming (deliver c st (Message (Unparsable m))) \<and>
      \<not> dispatching c (conns (deliver c st (Message (Unparsable m)))) \<and>
      run c (deliver c st (Message (Unparsable m))) evs = deliver c st (Message (Unparsable m)) \<and>
      deliver c st (Message (Parsed JNull)) = deliver c st (Message (Unparsable m))) \<and>
   (dispatching c (conns_c cst) \<longrightarrow>
      messages_c (chat_deliver tmsg c cst (Message (Unparsable m)))
        = messages_c cst @
          [\<lparr>sender = ''bot'', type_c = ''error'',
            content_c = JStr (''Error processing message: '' @ m), step_c = JUndefined\<rparr>] \<and>
      conns_c (chat_deliver tmsg c cst (Message (Unparsable m))) = conns_c cst)"
proof (intro conjI impI)
  assume d: "dispatching c (conns st)"
  let ?st' = "deliver c st (Message (Unparsable m))"
  have eq: "?st' = onmessage_catch st c" using d by (rule deliver_unparsable)
  show "messages ?st' = messages st @ [\<lparr>mtype = ''error'', step = JUndefined,
                          content = JStr ''Error parsing stream data.''\<rparr>]"
    by (simp add: eq onmessage_catch_def close_es_def)
  show "progress ?st' = progress st" by (simp add: eq onmessage_catch_def close_es_def)
  show "\<not> streaming ?st'" by (simp add: eq onmessage_catch_def close_es_def)
  show closed: "\<not> dispatching c (conns ?st')" by (simp add: eq onmessage_catch_closed)
  show "run c ?st' evs = ?st'" using closed by (rule run_closed)
  show "deliver c st (Message (Parsed JNull)) = ?st'"
    using d by (simp add: eq deliver_null nullish_def)
next
  assume d: "dispatching c (conns_c cst)"
  then have eq: "chat_deliver tmsg c cst (Message (Unparsable m)) = chat_catch cst m"
    by (simp add: chat_deliver_def chat_onmessage_def)
  show "messages_c (chat_deliver tmsg c cst (Message (Unparsable m)))
        = messages_c cst @
          [\<lparr>sender = ''bot'', type_c = ''error'',
            content_c = JStr (''Error processing message: '' @ m), step_c = JUndefined\<rparr>]"
    by (simp add: eq chat_catch_def bot_error_def)
  show "conns_c (chat_deliver tmsg c cst (Message (Unparsable m))) = conns_c cst"
    by (simp add: eq chat_catch_def)
qed

theorem malformed_event_recovered_witness:
  "messages
     (deliver 0
        \<lparr>curriculum = ''Python'', submitted = True, streaming = True, messages = [],
         progress = [], posted = [''Python''],
         conns = [\<lparr>param = ''Python'', is_open = True\<rparr>]\<rparr>
        (Message (Unparsable ''Unexpected end of JSON input'')))
     = [\<lparr>mtype = ''error'', step = JUndefined, content = JStr ''Error parsing stream data.''\<rparr>] \<and>
   conns_c
     (chat_deliver ''Cannot read properties of null'' 0
        \<lparr>inputValue = [], messages_c = [], eventSourceInstance = Some 0, posted_c = [''Python''],
         conns_c = [\<lparr>param = ''Python'', is_open = True\<rparr>]\<rparr>
        (Message (Unparsable ''Unexpected end of JSON input'')))
     = [\<lparr>param = ''Python'', is_open = True\<rparr>]"
  using malformed_event_recovered
    [of 0 "\<lparr>curriculum = ''Python'', submitted = True, streaming = True, messages = [],
         progress = [], posted = [''Python''],
         conns = [\<lparr>param = ''Python'', is_open = True\<rparr>]\<rparr>"
        "''Unexpected end of JSON input''" "[]"
        "\<lparr>inputValue = [], messages_c = [], eventSourceInstance = Some 0, posted_c = [''Python''],
         conns_c = [\<lparr>param = ''Python'', is_open = True\<rparr>]\<rparr>"
        "''Cannot read properties of null''"]
  by (simp add: dispatching_def)

subsection \<open>Events that report an error\<close>

text \<open>
  C3, as stated, fails: an error field does not always give an error entry carrying its
  text.  With the step jobs_fetched the entry has the table kind; with a message field
  beside it the entry carries the message.  In StreamingChatInterface.jsx an event with an
  error field is an ordinary text entry with empty content, and the stream stays open.
\<close>

theorem upstream_error_counterexample:
  "messages
     (deliver 0
        \<lparr>curriculum = ''Python'', submitted = True, streaming = True, messages = [],
         progress = [], posted = [''Python''],
         conns = [\<lparr>param = ''Python'', is_open = True\<rparr>]\<rparr>
        (Message (Parsed (JObj [(''step'', JStr ''jobs_fetched''),
                                (''error'', JStr ''rate limited'')]))))
     = [\<lparr>mtype = ''jobs'', step = JStr ''jobs_fetched'', content = JStr ''rate limited''\<rparr>] \<and>
   messages
     (deliver 0
        \<lparr>curriculum = ''Python'', submitted = True, streaming = True, messages = [],
         progress = [], posted = [''Python''],
         conns = [\<lparr>param = ''Python'', is_open = True\<rparr>]\<rparr>
        (Message (Parsed (JObj [(''error'', JStr ''rate limited''),
                                (''message'', JStr ''try again later'')]))))
     = [\<lparr>mtype = ''error'', step = JUndefined, content = JStr ''try again later''\<rparr>] \<and>
   chat_deliver ''Cannot read properties of null'' 0
     \<lparr>inputValue = [], messages_c = [], eventSourceInstance = Some 0, posted_c = [''Python''],
      conns_c = [\<lparr>param = ''Python'', is_open = True\<rparr>]\<rparr>
     (Message (Parsed (JObj [(''error'', JStr ''rate limited'')])))
     = \<lparr>inputValue = [],
        messages_c = [\<lparr>sender = ''bot'', type_c = ''text'', content_c = JStr [],
                       step_c = JUndefined\<rparr>],
        eventSourceInstance = Some 0, posted_c = [''Python''],
        conns_c = [\<lparr>param = ''Python'', is_open = True\<rparr>]\<rparr>"
  by (simp add: deliver_def dispatching_def onmessage_def nullish_def onmessage_try_def
      is_terminal_def mk_entry_def msgType_def msgContent_def js_or_def close_es_def
      close_at_def chat_deliver_def chat_onmessage_def botMessage_def Let_def)

text \<open>
  C3, amended.  In App.jsx an event with a truthy error field appends exactly one entry,
  its classification, clears streaming (the state has no separate failed phase) and closes
  the event source, after which no event from that source changes the state.  The entry
  has the error kind when the event's step is none of the seven content steps.  When the
  step is none of the three list steps, the entry's content is the first truthy one of the
  data, message and error fields; so it is the error field's value when there is no truthy
  data or message field, as for \<open>{error: "rate limited"}\<close>.
\<close>

theorem upstream_error_terminal:
  "dispatching c (conns st) \<and> \<not> nullish p \<and> truthy (js_prop p ''error'') \<longrightarrow>
     messages (deliver c st (Message (Parsed p))) = messages st @ [mk_entry p] \<and>
     \<not> streaming (deliver c st (Message (Parsed p))) \<and>
     \<not> dispatching c (conns (deliver c st (Message (Parsed p)))) \<and>
     run c (deliver c st (Message (Parsed p))) evs = deliver c st (Message (Parsed p)) \<and>
     (js_prop p ''step'' \<notin> {JStr ''summary_generated'', JStr ''major_project_generated'',
                            JStr ''mini_projects_generated'', JStr ''skills_extracted'',
                            JStr ''roles_identified'', JStr ''gaps_analyzed'',
                            JStr ''jobs_fetched''} \<and>
      \<not> truthy (js_prop p ''data'') \<and> \<not> truthy (js_prop p ''message'') \<longrightarrow>
        mk_entry p = \<lparr>mtype = ''error'', step = js_prop p ''step'',
                      content = js_prop p ''error''\<rparr>) \<and>
     (js_prop p ''step'' \<notin> {JStr ''summary_generated'', JStr ''major_project_generated'',
                            JStr ''mini_projects_generated'', JStr ''skills_extracted'',
                            JStr ''roles_identified'', JStr ''gaps_analyzed'',
                            JStr ''jobs_fetched''} \<longrightarrow>
        mtype (mk_entry p) = ''error'') \<and>
     (js_prop p ''step'' \<notin> {JStr ''skills_extracted'', JStr ''roles_identified'',
                            JStr ''gaps_analyzed''} \<longrightarrow>
        content (mk_entry p) =
          (if truthy (js_prop p ''data'') then js_prop p ''data''
           else if truthy (js_prop p ''message'') then js_prop p ''message''
           else js_prop p ''error''))"
proof (intro impI)
  assume h: "dispatching c (conns st) \<and> \<not> nullish p \<and> truthy (js_prop p ''error'')"
  let ?st' = "deliver c st (Message (Parsed p))"
  have eq: "?st' = onmessage_try st c p" using h by (simp add: deliver_valid)
  have fin: "is_terminal p" using h by (simp add: is_terminal_def)
  have m: "messages ?st' = messages st @ [mk_entry p]"
    by (simp add: eq messages_onmessage_try)
  have s: "\<not> streaming ?st'"
    using fin by (simp add: eq onmessage_try_def Let_def)
  have closed: "\<not> dispatching c (conns ?st')"
    using fin by (simp add: eq conns_onmessage_try)
  have r: "run c ?st' evs = ?st'" using closed by (rule run_closed)
  have k: "js_prop p ''step'' \<notin> {JStr ''summary_generated'', JStr ''major_project_generated'',
                            JStr ''mini_projects_generated'', JStr ''skills_extracted'',
                            JStr ''roles_identified'', JStr ''gaps_analyzed'',
                            JStr ''jobs_fetched''} \<and>
      \<not> truthy (js_prop p ''data'') \<and> \<not> truthy (js_prop p ''message'') \<longrightarrow>
        mk_entry p = \<lparr>mtype = ''error'', step = js_prop p ''step'',
                      content = js_prop p ''error''\<rparr>"
    using h by (simp add: mk_entry_def msgType_def msgContent_def js_or_def)
  have kind: "js_prop p ''step'' \<notin> {JStr ''summary_generated'', JStr ''major_project_generated'',
                            JStr ''mini_projects_generated'', JStr ''skills_extracted'',
                            JStr ''roles_identified'', JStr ''gaps_analyzed'',
                            JStr ''jobs_fetched''} \<longrightarrow>
        mtype (mk_entry p) = ''error''"
    using h by (simp add: mk_entry_def msgType_def)
  have cont: "js_prop p ''step'' \<notin> {JStr ''skills_extracted'', JStr ''roles_identified'',
                            JStr ''gaps_analyzed''} \<longrightarrow>
        content (mk_entry p) =
          (if truthy (js_prop p ''data'') then js_prop p ''data''
           else if truthy (js_prop p ''message'') then js_prop p ''message''
           else js_prop p ''error'')"
    by (auto simp add: mk_entry_def msgType_def msgContent_def js_or_def)
  from m s closed r k kind cont
  show "messages ?st' = messages st @ [mk_entry p] \<and> \<not> streaming ?st' \<and>
     \<not> dispatching c (conns ?st') \<and> run c ?st' evs = ?st' \<and>
     (js_prop p ''step'' \<notin> {JStr ''summary_generated'', JStr ''major_project_generated'',
                            JStr ''mini_projects_generated'', JStr ''skills_extracted'',
                            JStr ''roles_identified'', JStr ''gaps_analyzed'',
                            JStr ''jobs_fetched''} \<and>
      \<not> truthy (js_prop p ''data'') \<and> \<not> truthy (js_prop p ''message'') \<longrightarrow>
        mk_entry p = \<lparr>mtype = ''error'', step = js_prop p ''step'',
                      content = js_prop p ''error''\<rparr>) \<and>
     (js_prop p ''step'' \<notin> {JStr ''summary_generated'', JStr ''major_project_generated'',
                            JStr ''mini_projects_generated'', JStr ''skills_extracted'',
                            JStr ''roles_identified'', JStr ''gaps_analyzed'',
                            JStr ''jobs_fetched''} \<longrightarrow>
        mtype (mk_entry p) = ''error'') \<and>
     (js_prop p ''step'' \<notin> {JStr ''skills_extracted'', JStr ''roles_identified'',
                            JStr ''gaps_analyzed''} \<longrightarrow>
        content (mk_entry p) =
          (if truthy (js_prop p ''data'') then js_prop p ''data''
           else if truthy (js_prop p ''message'') then js_prop p ''message''
           else js_prop p ''error''))"
    by blast
qed

theorem upstream_error_terminal_witness:
  "run 0
     \<lparr>curriculum = ''Python'', submitted = True, streaming = True, messages = [],
      progress = [], posted = [''Python''],
      conns = [\<lparr>param = ''Python'', is_open = True\<rparr>]\<rparr>
     [Message (Parsed (JObj [(''error'', JStr ''rate limited'')])),
      Message (Parsed (JObj [(''step'', JStr ''skills_extracted''),
                             (''data'', JArr [JStr ''Python''])]))]
   = \<lparr>curriculum = ''Python'', submitted = True, streaming = False,
      messages = [\<lparr>mtype = ''error'', step = JUndefined, content = JStr ''rate limited''\<rparr>],
      progress = [], posted = [''Python''],
      conns = [\<lparr>param = ''Python'', is_open = False\<rparr>]\<rparr>"
proof -
  let ?st = "\<lparr>curriculum = ''Python'', submitted = True, streaming = True, messages = [],
      progress = [], posted = [''Python''],
      conns = [\<lparr>param = ''Python'', is_open = True\<rparr>]\<rparr>"
  let ?e = "Message (Parsed (JObj [(''error'', JStr ''rate limited'')]))"
  let ?e2 = "Message (Parsed (JObj [(''step'', JStr ''skills_extracted''),
                             (''data'', JArr [JStr ''Python''])]))"
  have hyp: "dispatching 0 (conns ?st) \<and> \<not> nullish (JObj [(''error'', JStr ''rate limited'')]) \<and>
      truthy (js_prop (JObj [(''error'', JStr ''rate limited'')]) ''error'')"
    by (simp add: dispatching_def nullish_def)
  have a: "run 0 (deliver 0 ?st ?e) [?e2] = deliver 0 ?st ?e"
    using upstream_error_terminal [of 0 ?st "JObj [(''error'', JStr ''rate limited'')]" "[?e2]"] hyp
    by blast
  have b: "run 0 ?st [?e, ?e2] = run 0 (deliver 0 ?st ?e) [?e2]"
    by (simp add: run_def)
  have c: "deliver 0 ?st ?e = \<lparr>curriculum = ''Python'', submitted = True, streaming = False,
      messages = [\<lparr>mtype = ''error'', step = JUndefined, content = JStr ''rate limited''\<rparr>],
      progress = [], posted = [''Python''],
      conns = [\<lparr>param = ''Python'', is_open = False\<rparr>]\<rparr>"
    by (simp add: deliver_def dispatching_def onmessage_def nullish_def onmessage_try_def
      is_terminal_def mk_entry_def msgType_def msgContent_def js_or_def close_es_def
      close_at_def Let_def)
  show ?thesis using a b c by simp
qed

subsection \<open>The jobs table\<close>

lemma collect_map_Inr:
  "(\<forall>x\<in>set xs. g x = Inr (f x)) \<Longrightarrow> collect (map g xs) = Inr (map f xs)"
  by (induction xs) simp_all

lemma elem_text:
  "string_or_absent v \<Longrightarrow>
   (if v = JUndefined \<or> v = JNull then Inr [] else to_str v) = Inr (text_of v)"
  by (cases v) simp_all

lemma job_row_record:
  assumes "job_record job"
  shows "job_row job = Inr (row_text job)"
proof -
  obtain kvs where job: "job = JObj kvs" using assms by (cases job) simp_all
  have cols: "\<forall>k\<in>set job_columns. string_or_absent (js_prop job k)"
    using assms by (simp add: job list_all_iff)
  have "\<forall>k\<in>set job_columns. js_get job k = Inr (js_prop job k)"
    by (simp add: js_get_def job nullish_def)
  then have a: "collect (map (js_get job) job_columns) = Inr (map (js_prop job) job_columns)"
    by (rule collect_map_Inr)
  have "\<forall>k\<in>set job_columns.
          (if js_prop job k = JUndefined \<or> js_prop job k = JNull then Inr []
           else to_str (js_prop job k)) = Inr (text_of (js_prop job k))"
    using cols by (simp add: elem_text)
  then have b: "collect (map (\<lambda>k. if js_prop job k = JUndefined \<or> js_prop job k = JNull
                                  then Inr [] else to_str (js_prop job k)) job_columns)
                = Inr (map (\<lambda>k. text_of (js_prop job k)) job_columns)"
    by (rule collect_map_Inr)
  show ?thesis
    by (simp add: job_row_def a array_join_def b row_text_def comp_def)
qed

text \<open>
  C5, as stated, fails: the payload of a jobs_fetched entry is not validated.  An element
  that is not a record stays in the payload, and a column missing from a record is
  undefined in the entry, not the empty string.
\<close>

theorem jobs_payload_counterexample:
  "mk_entry (JObj [(''step'', JStr ''jobs_fetched''),
                   (''data'', JArr [JObj [(''title'', JStr ''Engineer''),
                                          (''company'', JStr ''Acme'')],
                                    JStr ''not a record''])])
     = \<lparr>mtype = ''jobs'', step = JStr ''jobs_fetched'',
        content = JArr [JObj [(''title'', JStr ''Engineer''), (''company'', JStr ''Acme'')],
                        JStr ''not a record'']\<rparr> \<and>
   js_prop (JObj [(''title'', JStr ''Engineer''), (''company'', JStr ''Acme'')]) ''location''
     = JUndefined \<and>
   JUndefined \<noteq> JStr []"
  by (simp add: mk_entry_def msgType_def msgContent_def js_or_def)

text \<open>
  C5, amended.  A jobs_fetched event gives an entry of the table kind whose payload is the
  data field as received whenever that is truthy, as every array is: nothing is dropped and
  nothing is filled in.  An absent column shows as empty only in the export, where the row
  of a job record is the texts of its columns joined by the column delimiter: the record
  \<open>{title: "Engineer", company: "Acme"}\<close> gives the row with five empty columns.
\<close>

theorem jobs_payload_as_received:
  "(js_prop p ''step'' = JStr ''jobs_fetched'' \<longrightarrow>
      mtype (mk_entry p) = ''jobs'' \<and>
      (truthy (js_prop p ''data'') \<longrightarrow> content (mk_entry p) = js_prop p ''data'')) \<and>
   (js_prop p ''step'' = JStr ''jobs_fetched'' \<and> js_prop p ''data'' = JArr js \<longrightarrow>
      mk_entry p = \<lparr>mtype = ''jobs'', step = JStr ''jobs_fetched'', content = JArr js\<rparr>) \<and>
   (job_record job \<longrightarrow> job_row job = Inr (row_text job))"
proof (intro conjI impI)
  assume "job_record job"
  then show "job_row job = Inr (row_text job)" by (rule job_row_record)
qed (simp_all add: mk_entry_def msgType_def msgContent_def js_or_def)

theorem jobs_payload_as_received_witness:
  "mk_entry (JObj [(''step'', JStr ''jobs_fetched''),
                   (''data'', JArr [JObj [(''title'', JStr ''Engineer''),
                                          (''company'', JStr ''Acme'')]])])
     = \<lparr>mtype = ''jobs'', step = JStr ''jobs_fetched'',
        content = JArr [JObj [(''title'', JStr ''Engineer''), (''company'', JStr ''Acme'')]]\<rparr> \<and>
   job_row (JObj [(''title'', JStr ''Engineer''), (''company'', JStr ''Acme'')])
     = Inr ''Engineer | Acme |  |  |  |  | ''"
  using jobs_payload_as_received
    [of "JObj [(''step'', JStr ''jobs_fetched''),
               (''data'', JArr [JObj [(''title'', JStr ''Engineer''),
                                      (''company'', JStr ''Acme'')]])]"
        "[JObj [(''title'', JStr ''Engineer''), (''company'', JStr ''Acme'')]]"
        "JObj [(''title'', JStr ''Engineer''), (''company'', JStr ''Acme'')]"]
  by (simp add: job_columns_def row_text_def)

subsection \<open>The export\<close>

















end
